theory Spec2Isabelle
  imports Complex_Main "HOL-Library.Log_Nat"
begin

section \<open>Values of the Python runtime\<close>

text \<open>
  The handlers of \<^verbatim>\<open>backend/app.py\<close> work on parsed JSON. A JSON document is a value of
  \<open>json\<close>; \<open>JNull\<close> is Python's \<^verbatim>\<open>None\<close>, and \<open>JObj\<close> is the parsed \<^verbatim>\<open>dict\<close>, each key
  listed once. A JSON number without fraction or exponent is a Python \<^verbatim>\<open>int\<close>, of
  any size; every other number is a \<^verbatim>\<open>float\<close>.
\<close>

text \<open>
  A Python \<^verbatim>\<open>float\<close>: a finite value, an infinity, or not a number (the parser of
  \<^verbatim>\<open>json\<close> gives an infinity for \<^verbatim>\<open>1e400\<close> and reads \<^verbatim>\<open>Infinity\<close> and \<^verbatim>\<open>NaN\<close>). The finite
  values are kept as the reals they stand for.
\<close>

datatype pyfloat = Finite real | Infinity | NegInfinity | NaN

datatype json =
    JNull
  | JBool bool
  | JInt int
  | JFloat pyfloat
  | JStr string
  | JArr "json list"
  | JObj "(string \<times> json) list"

text \<open>
  The exceptions the handlers can meet. \<open>KeyError\<close> carries the key that was missing;
  \<open>LibraryError\<close> is anything raised inside Flask, requests, or the pickled model.
\<close>

datatype py_exception =
    KeyError json
  | IndexError
  | TypeError
  | ValueError
  | AttributeError
  | OverflowError
  | LibraryError string

text \<open>Truth value of a Python object, as \<^verbatim>\<open>if x\<close>, \<^verbatim>\<open>not x\<close> and \<^verbatim>\<open>x and y\<close> test it.\<close>

fun truthy :: "json \<Rightarrow> bool" where
  "truthy JNull = False"
| "truthy (JBool b) = b"
| "truthy (JInt i) = (i \<noteq> 0)"
| "truthy (JFloat f) = (f \<noteq> Finite 0)"
| "truthy (JStr s) = (s \<noteq> [])"
| "truthy (JArr xs) = (xs \<noteq> [])"
| "truthy (JObj kvs) = (kvs \<noteq> [])"

text \<open>\<^verbatim>\<open>data.get(key, default)\<close>: only a dict has the method \<^verbatim>\<open>get\<close>.\<close>

fun py_get :: "json \<Rightarrow> string \<Rightarrow> json \<Rightarrow> py_exception + json" where
  "py_get (JObj kvs) k d = Inr (case map_of kvs k of None \<Rightarrow> d | Some v \<Rightarrow> v)"
| "py_get _ k d = Inl AttributeError"

text \<open>\<^verbatim>\<open>data[key]\<close> with a string key: a dict looks the key up, nothing else takes one.\<close>

fun py_getitem :: "json \<Rightarrow> string \<Rightarrow> py_exception + json" where
  "py_getitem (JObj kvs) k =
     (case map_of kvs k of None \<Rightarrow> Inl (KeyError (JStr k)) | Some v \<Rightarrow> Inr v)"
| "py_getitem _ k = Inl TypeError"

text \<open>
  \<^verbatim>\<open>xs[0]\<close>: the first element of a list, the first character of a string; a parsed
  dict has string keys only, so the key \<^verbatim>\<open>0\<close> is never in it.
\<close>

fun py_getitem0 :: "json \<Rightarrow> py_exception + json" where
  "py_getitem0 (JArr []) = Inl IndexError"
| "py_getitem0 (JArr (x # xs)) = Inr x"
| "py_getitem0 (JStr []) = Inl IndexError"
| "py_getitem0 (JStr (c # cs)) = Inr (JStr [c])"
| "py_getitem0 (JObj kvs) = Inl (KeyError (JInt 0))"
| "py_getitem0 _ = Inl TypeError"

text \<open>
  \<^verbatim>\<open>float(i)\<close> of an \<^verbatim>\<open>int\<close>: the nearest double, ties to the even mantissa; an
  \<^verbatim>\<open>int\<close> that rounds to \<open>2 ^ 1024\<close> or beyond raises \<^verbatim>\<open>OverflowError\<close> (\<open>None\<close>).
  Below \<open>2 ^ 53\<close> every \<^verbatim>\<open>int\<close> is a double; above, the 53 leading bits are kept
  and the \<open>e\<close> bits cut off decide the rounding.
\<close>

definition float_of_int :: "int \<Rightarrow> real option" where
  "float_of_int i =
     (let a = \<bar>i\<bar> in
      if a < 2 ^ 53 then Some (of_int i)
      else
        (let e = nat (bitlen a) - 53;
             q = a div 2 ^ e;
             r = a mod 2 ^ e;
             half = 2 ^ (e - 1);
             q' = (if half < r \<or> (r = half \<and> odd q) then q + 1 else q)
         in if 2 ^ 1024 \<le> q' * 2 ^ e then None
            else Some (of_int (sgn i * (q' * 2 ^ e)))))"

text \<open>
  \<^verbatim>\<open>float(x)\<close>. A \<^verbatim>\<open>float\<close> is returned as it is, an \<^verbatim>\<open>int\<close> is rounded, \<^verbatim>\<open>True\<close> and
  \<^verbatim>\<open>False\<close> are 1 and 0. How Python reads a string as a number is the parameter
  \<open>str_float\<close> (\<open>None\<close> where \<^verbatim>\<open>float\<close> raises \<^verbatim>\<open>ValueError\<close>).
\<close>

fun py_float :: "(string \<Rightarrow> pyfloat option) \<Rightarrow> json \<Rightarrow> py_exception + pyfloat" where
  "py_float str_float (JFloat f) = Inr f"
| "py_float str_float (JInt i) =
     (case float_of_int i of None \<Rightarrow> Inl OverflowError | Some r \<Rightarrow> Inr (Finite r))"
| "py_float str_float (JBool b) = Inr (Finite (if b then 1 else 0))"
| "py_float str_float (JStr s) =
     (case str_float s of None \<Rightarrow> Inl ValueError | Some f \<Rightarrow> Inr f)"
| "py_float str_float _ = Inl TypeError"

text \<open>\<^verbatim>\<open>probabilities[i]\<close> on the row a classifier returns.\<close>

definition py_index :: "'a list \<Rightarrow> nat \<Rightarrow> py_exception + 'a" where
  "py_index xs i = (if i < length xs then Inr (xs ! i) else Inl IndexError)"

section \<open>Requests, responses and the process state\<close>

datatype http_method = GET | POST | OPTIONS

text \<open>
  What a handler reads of Flask's \<^verbatim>\<open>request\<close>: the method, and what
  \<^verbatim>\<open>request.get_json()\<close> gives (it raises on a body that is not JSON).
\<close>

record request =
  http_method :: http_method
  get_json :: "py_exception + json"

datatype sensor_status = Connected | Disconnected

text \<open>
  The global \<^verbatim>\<open>latest_sensor_data\<close>. The source stores the timestamp as
  \<^verbatim>\<open>datetime.now().isoformat()\<close> and reads it back with \<^verbatim>\<open>fromisoformat\<close>, which
  returns the same \<^verbatim>\<open>datetime\<close>; the model keeps the \<^verbatim>\<open>datetime\<close> itself, as a number of
  microseconds (the resolution of \<^verbatim>\<open>datetime\<close>).
\<close>

record sensor_data =
  temperature :: "pyfloat option"
  timestamp :: "int option"
  status :: sensor_status

definition latest_sensor_data :: sensor_data where
  "latest_sensor_data = \<lparr>temperature = None, timestamp = None, status = Disconnected\<rparr>"

text \<open>
  The unpickled model: \<^verbatim>\<open>model.predict([features])[0]\<close> and
  \<^verbatim>\<open>model.predict_proba([features])[0]\<close>, each of which may raise.
\<close>

record classifier =
  clf_predict :: "json list \<Rightarrow> py_exception + int"
  clf_predict_proba :: "json list \<Rightarrow> py_exception + real list"

text \<open>
  Lines 30 to 35: the model is loaded once; a failed load leaves \<^verbatim>\<open>model = None\<close>.
\<close>

definition load_model :: "py_exception + classifier \<Rightarrow> classifier option" where
  "load_model pickle_load = (case pickle_load of Inl e \<Rightarrow> None | Inr m \<Rightarrow> Some m)"

text \<open>The calls a handler makes out of the process, in the order it makes them.\<close>

datatype event =
    RequestsGet json json
  | ModelPredict "json list"
  | ModelPredictProba "json list"

text \<open>
  The \<^verbatim>\<open>error\<close> field of a failure: a fixed text, or \<^verbatim>\<open>str(e)\<close> of the exception
  caught.
\<close>

datatype error_text = Text string | Str py_exception

record prediction =
  risk :: string
  risk_code :: int
  confidence_low :: real
  confidence_medium :: real
  confidence_high :: real
  recommendations :: "string list"

record sensor_prediction = prediction +
  used_temperature_max :: json
  used_temperature_min :: json
  used_wind_speed_max :: json
  used_wind_gusts_max :: json
  used_precipitation :: json
  data_source :: string
  sensor_status :: sensor_status
  sensor_note :: "string option"

datatype body =
    NoBody
  | ErrorBody error_text
  | HealthBody bool sensor_status
  | IngestBody json int
  | SensorBody sensor_data
  | PredictBody prediction
  | PredictSensorBody sensor_prediction

type_synonym response = "body \<times> nat"

section \<open>Calls that may raise, with the trace of outside calls\<close>

type_synonym 'a eff = "event list \<times> (py_exception + 'a)"

definition lift :: "py_exception + 'a \<Rightarrow> 'a eff" where
  "lift r = ([], r)"

definition bind_eff :: "'a eff \<Rightarrow> ('a \<Rightarrow> 'b eff) \<Rightarrow> 'b eff" where
  "bind_eff m f =
     (case m of
        (ev, Inl e) \<Rightarrow> (ev, Inl e)
      | (ev, Inr x) \<Rightarrow> (case f x of (ev', r) \<Rightarrow> (ev @ ev', r)))"

definition requests_get ::
  "(json \<Rightarrow> json \<Rightarrow> py_exception + json) \<Rightarrow> json \<Rightarrow> json \<Rightarrow> json eff" where
  "requests_get fetch latitude longitude =
     ([RequestsGet latitude longitude], fetch latitude longitude)"

definition model_predict :: "classifier \<Rightarrow> json list \<Rightarrow> int eff" where
  "model_predict m features = ([ModelPredict features], clf_predict m features)"

definition model_predict_proba :: "classifier \<Rightarrow> json list \<Rightarrow> real list eff" where
  "model_predict_proba m features =
     ([ModelPredictProba features], clf_predict_proba m features)"

section \<open>Recommendations\<close>

definition recommendations_table :: "(string \<times> string list) list" where
  "recommendations_table =
     [(''Low'',
        [''Conditions are safe for outdoor activities'',
         ''Stay hydrated with regular water intake'',
         ''Normal precautions are sufficient'']),
      (''Medium'',
        [''Stay hydrated - drink water every 30-45 minutes'',
         ''Limit outdoor activities during peak afternoon hours'',
         ''Wear light, loose-fitting clothing'',
         ''Take frequent breaks in shaded areas'']),
      (''High'',
        [''Stay indoors as much as possible'',
         ''Drink water every 20-30 minutes'',
         ''Avoid ALL outdoor activities between 11 AM - 5 PM'',
         ''Seek air-conditioned environments'',
         ''Know heatstroke symptoms: confusion, dizziness, nausea''])]"

definition get_recommendations :: "string \<Rightarrow> string list" where
  "get_recommendations risk_level =
     (case map_of recommendations_table risk_level of None \<Rightarrow> [] | Some advice \<Rightarrow> advice)"

definition RISK_LABELS :: "(int \<times> string) list" where
  "RISK_LABELS = [(0, ''Low''), (1, ''Medium''), (2, ''High'')]"

text \<open>\<^verbatim>\<open>RISK_LABELS[prediction]\<close>.\<close>

definition risk_label :: "int \<Rightarrow> py_exception + string" where
  "risk_label prediction =
     (case map_of RISK_LABELS prediction of
        None \<Rightarrow> Inl (KeyError (JInt prediction))
      | Some label \<Rightarrow> Inr label)"

section \<open>The sensor endpoints\<close>

definition health_check :: "classifier option \<Rightarrow> sensor_data \<Rightarrow> response" where
  "health_check model s = (HealthBody (model \<noteq> None) (status s), 200)"

text \<open>
  \<^verbatim>\<open>POST /sensor/temperature\<close>. \<open>now\<close> is the value of \<^verbatim>\<open>datetime.now()\<close> at line 69.
  Every exception of the \<^verbatim>\<open>try\<close> block is raised before the first assignment to the
  state, and is answered by the \<^verbatim>\<open>except\<close> clause with status 500.
\<close>

definition receive_sensor_data ::
  "(string \<Rightarrow> pyfloat option) \<Rightarrow> int \<Rightarrow> sensor_data \<Rightarrow> request \<Rightarrow> response \<times> sensor_data" where
  "receive_sensor_data str_float now s req =
     (if http_method req = OPTIONS then ((NoBody, 204), s)
      else
        (case get_json req of
           Inl e \<Rightarrow> ((ErrorBody (Str e), 500), s)
         | Inr data \<Rightarrow>
             (case py_get data ''temperature'' JNull of
                Inl e \<Rightarrow> ((ErrorBody (Str e), 500), s)
              | Inr temp \<Rightarrow>
                  if temp = JNull
                  then ((ErrorBody (Text ''No temperature data''), 400), s)
                  else
                    (case py_float str_float temp of
                       Inl e \<Rightarrow> ((ErrorBody (Str e), 500), s)
                     | Inr t \<Rightarrow>
                         ((IngestBody temp now, 200),
                          s\<lparr>temperature := Some t, timestamp := Some now,
                            status := Connected\<rparr>)))))"

text \<open>
  \<^verbatim>\<open>GET /sensor/temperature\<close>. \<open>now\<close> is \<^verbatim>\<open>datetime.now()\<close> at line 89;
  \<^verbatim>\<open>total_seconds() > 10\<close> is more than ten million microseconds.
\<close>

definition get_sensor_data :: "int \<Rightarrow> sensor_data \<Rightarrow> response \<times> sensor_data" where
  "get_sensor_data now s =
     (let s' =
        (case timestamp s of
           None \<Rightarrow> s
         | Some last_update \<Rightarrow>
             if now - last_update > 10 * 1000000 then s\<lparr>status := Disconnected\<rparr> else s)
      in ((SensorBody s', 200), s'))"

section \<open>The prediction endpoints\<close>

text \<open>\<^verbatim>\<open>daily[key][0]\<close>.\<close>

definition daily0 :: "json \<Rightarrow> string \<Rightarrow> py_exception + json" where
  "daily0 daily k = (case py_getitem daily k of Inl e \<Rightarrow> Inl e | Inr col \<Rightarrow> py_getitem0 col)"

text \<open>
  Lines 128 to 134: the sensor's temperature when it is asked for and there is one,
  the forecast's otherwise. \<^verbatim>\<open>and\<close> does not look at the state when \<^verbatim>\<open>use_sensor\<close> is
  false, and the forecast's maximum is read in the \<^verbatim>\<open>else\<close> branch only.
\<close>

definition choose_temp_max ::
  "json \<Rightarrow> sensor_data \<Rightarrow> json \<Rightarrow> py_exception + json \<times> string" where
  "choose_temp_max use_sensor s daily =
     (case (if truthy use_sensor then temperature s else None) of
        Some t \<Rightarrow> Inr (JFloat t, ''sensor'')
      | None \<Rightarrow>
          (case daily0 daily ''temperature_2m_max'' of
             Inl e \<Rightarrow> Inl e
           | Inr v \<Rightarrow> Inr (v, ''open-meteo'')))"

text \<open>
  The body of the \<^verbatim>\<open>try\<close> block of \<^verbatim>\<open>predict_with_sensor\<close>, lines 105 to 167.
  \<open>fetch\<close> is \<^verbatim>\<open>requests.get(...).json()\<close> as a function of the coordinates sent.
\<close>

definition predict_with_sensor_try ::
  "classifier \<Rightarrow> (json \<Rightarrow> json \<Rightarrow> py_exception + json) \<Rightarrow> sensor_data \<Rightarrow> request \<Rightarrow>
     response eff" where
  "predict_with_sensor_try m fetch s req =
     bind_eff (lift (get_json req)) (\<lambda>data.
     bind_eff (lift (py_get data ''latitude'' JNull)) (\<lambda>latitude.
     bind_eff (lift (py_get data ''longitude'' JNull)) (\<lambda>longitude.
     bind_eff (lift (py_get data ''use_sensor'' (JBool False))) (\<lambda>use_sensor.
     if \<not> truthy latitude \<or> \<not> truthy longitude
     then lift (Inr (ErrorBody (Text ''Latitude and longitude required''), 400))
     else
     bind_eff (requests_get fetch latitude longitude) (\<lambda>meteo_data.
     bind_eff (lift (py_getitem meteo_data ''daily'')) (\<lambda>daily.
     bind_eff (lift (choose_temp_max use_sensor s daily)) (\<lambda>(temp_max, source).
     bind_eff (lift (daily0 daily ''temperature_2m_min'')) (\<lambda>temp_min.
     bind_eff (lift (daily0 daily ''wind_speed_10m_max'')) (\<lambda>wind_speed.
     bind_eff (lift (daily0 daily ''wind_gusts_10m_max'')) (\<lambda>wind_gusts.
     bind_eff (lift (daily0 daily ''precipitation_sum'')) (\<lambda>precipitation.
     let features = [temp_max, temp_min, wind_speed, wind_gusts, precipitation] in
     bind_eff (model_predict m features) (\<lambda>prediction.
     bind_eff (model_predict_proba m features) (\<lambda>probabilities.
     bind_eff (lift (risk_label prediction)) (\<lambda>label.
     bind_eff (lift (py_index probabilities 0)) (\<lambda>p0.
     bind_eff (lift (py_index probabilities 1)) (\<lambda>p1.
     bind_eff (lift (py_index probabilities 2)) (\<lambda>p2.
     lift (Inr (PredictSensorBody
       \<lparr>risk = label, risk_code = prediction,
        confidence_low = p0, confidence_medium = p1, confidence_high = p2,
        recommendations = get_recommendations label,
        used_temperature_max = temp_max, used_temperature_min = temp_min,
        used_wind_speed_max = wind_speed, used_wind_gusts_max = wind_gusts,
        used_precipitation = precipitation,
        data_source = source, sensor_status = status s,
        sensor_note =
          (if \<not> truthy use_sensor then Some ''Hardware functionality not yet implemented''
           else None)\<rparr>, 200)))))))))))))))))))"

text \<open>
  \<^verbatim>\<open>POST /predict-with-sensor\<close>: the response and the outside calls made. The
  \<^verbatim>\<open>except\<close> clause turns every exception into status 500 with \<^verbatim>\<open>str(e)\<close>.
\<close>

definition predict_with_sensor ::
  "classifier option \<Rightarrow> (json \<Rightarrow> json \<Rightarrow> py_exception + json) \<Rightarrow> sensor_data \<Rightarrow> request \<Rightarrow>
     response \<times> event list" where
  "predict_with_sensor model fetch s req =
     (if http_method req = OPTIONS then ((NoBody, 204), [])
      else
        (case model of
           None \<Rightarrow> ((ErrorBody (Text ''Model not loaded''), 500), [])
         | Some m \<Rightarrow>
             (case predict_with_sensor_try m fetch s req of
                (ev, Inl e) \<Rightarrow> ((ErrorBody (Str e), 500), ev)
              | (ev, Inr resp) \<Rightarrow> (resp, ev))))"

text \<open>The body of the \<^verbatim>\<open>try\<close> block of \<^verbatim>\<open>predict\<close>, lines 182 to 203.\<close>

definition predict_try :: "classifier \<Rightarrow> request \<Rightarrow> response eff" where
  "predict_try m req =
     bind_eff (lift (get_json req)) (\<lambda>data.
     bind_eff (lift (py_getitem data ''temperature_2m_max'')) (\<lambda>temp_max.
     bind_eff (lift (py_getitem data ''temperature_2m_min'')) (\<lambda>temp_min.
     bind_eff (lift (py_getitem data ''wind_speed_10m_max'')) (\<lambda>wind_speed.
     bind_eff (lift (py_getitem data ''wind_gusts_10m_max'')) (\<lambda>wind_gusts.
     bind_eff (lift (py_getitem data ''precipitation_sum'')) (\<lambda>precipitation.
     let features = [temp_max, temp_min, wind_speed, wind_gusts, precipitation] in
     bind_eff (model_predict m features) (\<lambda>prediction.
     bind_eff (model_predict_proba m features) (\<lambda>probabilities.
     bind_eff (lift (risk_label prediction)) (\<lambda>label.
     bind_eff (lift (py_index probabilities 0)) (\<lambda>p0.
     bind_eff (lift (py_index probabilities 1)) (\<lambda>p1.
     bind_eff (lift (py_index probabilities 2)) (\<lambda>p2.
     lift (Inr (PredictBody
       \<lparr>risk = label, risk_code = prediction,
        confidence_low = p0, confidence_medium = p1, confidence_high = p2,
        recommendations = get_recommendations label\<rparr>, 200))))))))))))))"

text \<open>\<^verbatim>\<open>POST /predict\<close>.\<close>

definition predict :: "classifier option \<Rightarrow> request \<Rightarrow> response \<times> event list" where
  "predict model req =
     (if http_method req = OPTIONS then ((NoBody, 204), [])
      else
        (case model of
           None \<Rightarrow> ((ErrorBody (Text ''Model not loaded''), 500), [])
         | Some m \<Rightarrow>
             (case predict_try m req of
                (ev, Inl e) \<Rightarrow> ((ErrorBody (Str e), 500), ev)
              | (ev, Inr resp) \<Rightarrow> (resp, ev))))"

section \<open>The service as a state machine\<close>

text \<open>
  What the process is given: the model loaded at start, the forecast provider as
  \<^verbatim>\<open>requests.get(...).json()\<close> sees it, and Python's reading of a string as a number.
\<close>

record runtime =
  model :: "classifier option"
  fetch :: "json \<Rightarrow> json \<Rightarrow> py_exception + json"
  str_float :: "string \<Rightarrow> pyfloat option"

datatype call =
    HealthCheck
  | ReceiveSensorData request
  | GetSensorData
  | PredictWithSensor request
  | Predict request

text \<open>One request, served at clock value \<open>now\<close>: the response and the next state.\<close>

fun handle :: "runtime \<Rightarrow> int \<Rightarrow> sensor_data \<Rightarrow> call \<Rightarrow> response \<times> sensor_data" where
  "handle rt now s HealthCheck = (health_check (model rt) s, s)"
| "handle rt now s (ReceiveSensorData req) = receive_sensor_data (str_float rt) now s req"
| "handle rt now s GetSensorData = get_sensor_data now s"
| "handle rt now s (PredictWithSensor req) =
     (fst (predict_with_sensor (model rt) (fetch rt) s req), s)"
| "handle rt now s (Predict req) = (fst (predict (model rt) req), s)"

fun is_ingest :: "call \<Rightarrow> bool" where
  "is_ingest (ReceiveSensorData req) = True"
| "is_ingest _ = False"

text \<open>The state after a sequence of requests, each with the clock value it is served at.\<close>

fun run :: "runtime \<Rightarrow> sensor_data \<Rightarrow> (int \<times> call) list \<Rightarrow> sensor_data" where
  "run rt s [] = s"
| "run rt s ((now, c) # cs) = run rt (snd (handle rt now s c)) cs"

section \<open>A worked example\<close>

text \<open>
  The keys \<^verbatim>\<open>predict\<close> reads from the request, in the order of lines 184 to 188.
\<close>

definition feature_keys :: "string list" where
  "feature_keys =
     [''temperature_2m_max'', ''temperature_2m_min'', ''wind_speed_10m_max'',
      ''wind_gusts_10m_max'', ''precipitation_sum'']"

text \<open>
  A classifier that answers High with the distribution \<open>[1/10, 1/5, 7/10]\<close> whatever
  the features, a forecast provider whose day has a maximum of 35 degrees, and a
  \<^verbatim>\<open>POST\<close> request with a JSON body; the examples below run the handlers on them.
\<close>

definition example_model :: classifier where
  "example_model =
     \<lparr>clf_predict = (\<lambda>features. Inr 2),
      clf_predict_proba = (\<lambda>features. Inr [1 / 10, 1 / 5, 7 / 10])\<rparr>"

definition example_forecast :: "json \<Rightarrow> json \<Rightarrow> py_exception + json" where
  "example_forecast latitude longitude =
     Inr (JObj [(''daily'', JObj
       [(''temperature_2m_max'', JArr [JInt 35]),
        (''temperature_2m_min'', JArr [JInt 24]),
        (''wind_speed_10m_max'', JArr [JInt 10]),
        (''wind_gusts_10m_max'', JArr [JInt 15]),
        (''precipitation_sum'', JArr [JInt 0])])])"

definition post :: "json \<Rightarrow> request" where
  "post data = \<lparr>http_method = POST, get_json = Inr data\<rparr>"

text \<open>
  The bodies of a direct request and of a request by coordinates, and a sensor state
  whose reading of 42 degrees has gone stale.
\<close>

definition example_features :: json where
  "example_features =
     JObj [(''temperature_2m_max'', JInt 35), (''temperature_2m_min'', JInt 24),
           (''wind_speed_10m_max'', JInt 10), (''wind_gusts_10m_max'', JInt 15),
           (''precipitation_sum'', JInt 0)]"

definition example_coordinates :: "bool \<Rightarrow> json" where
  "example_coordinates use_sensor =
     JObj [(''latitude'', JInt 19), (''longitude'', JInt 73), (''use_sensor'', JBool use_sensor)]"

definition example_stale_sensor :: sensor_data where
  "example_stale_sensor = \<lparr>temperature = Some (Finite 42), timestamp = Some 0, status = Disconnected\<rparr>"

text \<open>
  A process with the example model and forecast, in which no string reads as a number.
\<close>

definition example_runtime :: runtime where
  "example_runtime =
     \<lparr>model = Some example_model, fetch = example_forecast, str_float = (\<lambda>s. None)\<rparr>"


section \<open>The recommendation table\<close>

lemma get_recommendations_unknown:
  "l \<noteq> ''Low'' \<Longrightarrow> l \<noteq> ''Medium'' \<Longrightarrow> l \<noteq> ''High'' \<Longrightarrow> get_recommendations l = []"
  by (simp add: get_recommendations_def recommendations_table_def)

text \<open>
  C8. \<open>get_recommendations\<close> is a function of the label alone: the three advisory
  strings of Low, the four of Medium and the five of High, in the order of the source,
  and the empty list for every other label.
\<close>

theorem get_recommendations_fixed_table:
  "get_recommendations ''Low'' =
     [''Conditions are safe for outdoor activities'',
      ''Stay hydrated with regular water intake'',
      ''Normal precautions are sufficient'']
   \<and> get_recommendations ''Medium'' =
     [''Stay hydrated - drink water every 30-45 minutes'',
      ''Limit outdoor activities during peak afternoon hours'',
      ''Wear light, loose-fitting clothing'',
      ''Take frequent breaks in shaded areas'']
   \<and> get_recommendations ''High'' =
     [''Stay indoors as much as possible'',
      ''Drink water every 20-30 minutes'',
      ''Avoid ALL outdoor activities between 11 AM - 5 PM'',
      ''Seek air-conditioned environments'',
      ''Know heatstroke symptoms: confusion, dizziness, nausea'']
   \<and> length (get_recommendations ''Low'') = 3
   \<and> length (get_recommendations ''Medium'') = 4
   \<and> length (get_recommendations ''High'') = 5
   \<and> (\<forall>l. l \<notin> {''Low'', ''Medium'', ''High''} \<longrightarrow> get_recommendations l = [])"
proof -
  have low: "get_recommendations ''Low'' =
     [''Conditions are safe for outdoor activities'',
      ''Stay hydrated with regular water intake'',
      ''Normal precautions are sufficient'']"
    by (simp add: get_recommendations_def recommendations_table_def)
  have medium: "get_recommendations ''Medium'' =
     [''Stay hydrated - drink water every 30-45 minutes'',
      ''Limit outdoor activities during peak afternoon hours'',
      ''Wear light, loose-fitting clothing'',
      ''Take frequent breaks in shaded areas'']"
    by (simp add: get_recommendations_def recommendations_table_def)
  have high: "get_recommendations ''High'' =
     [''Stay indoors as much as possible'',
      ''Drink water every 20-30 minutes'',
      ''Avoid ALL outdoor activities between 11 AM - 5 PM'',
      ''Seek air-conditioned environments'',
      ''Know heatstroke symptoms: confusion, dizziness, nausea'']"
    by (simp add: get_recommendations_def recommendations_table_def)
  have other: "\<forall>l. l \<notin> {''Low'', ''Medium'', ''High''} \<longrightarrow> get_recommendations l = []"
    using get_recommendations_unknown by simp
  show ?thesis
    unfolding low medium high using other by simp
qed

theorem get_recommendations_fixed_table_witness:
  "''Extreme'' \<notin> {''Low'', ''Medium'', ''High''} \<and> get_recommendations ''Extreme'' = []
   \<and> length (get_recommendations ''High'') = 5"
  using get_recommendations_fixed_table by simp

section \<open>Liveness of the sensor\<close>

lemma get_sensor_data_keeps_reading:
  "temperature (snd (get_sensor_data now s)) = temperature s
   \<and> timestamp (snd (get_sensor_data now s)) = timestamp s"
  by (simp add: get_sensor_data_def Let_def split: option.splits)

lemma get_sensor_data_status:
  "status (snd (get_sensor_data now s)) =
     (case timestamp s of
        None \<Rightarrow> status s
      | Some last_update \<Rightarrow>
          if now - last_update > 10 * 1000000 then Disconnected else status s)"
  by (simp add: get_sensor_data_def Let_def split: option.splits)

lemma handle_not_ingest_reading:
  "\<not> is_ingest c \<Longrightarrow>
   temperature (snd (handle rt now s c)) = temperature s
   \<and> timestamp (snd (handle rt now s c)) = timestamp s"
  by (cases c) (simp_all add: get_sensor_data_keeps_reading)

lemma handle_not_ingest_status:
  "\<not> is_ingest c \<Longrightarrow>
   status (snd (handle rt now s c)) = status s
   \<or> (c = GetSensorData \<and> status s = Connected \<and> status (snd (handle rt now s c)) = Disconnected
       \<and> (\<exists>last_update. timestamp s = Some last_update \<and> now - last_update > 10 * 1000000))"
  by (cases c; cases "status s") (auto simp: get_sensor_data_status split: option.splits)

lemma run_not_ingest_reading:
  "\<forall>(t, c) \<in> set calls. \<not> is_ingest c \<Longrightarrow>
   temperature (run rt s calls) = temperature s \<and> timestamp (run rt s calls) = timestamp s"
proof (induction calls arbitrary: s)
  case Nil
  then show ?case by simp
next
  case (Cons tc calls)
  obtain t c where tc: "tc = (t, c)" by (cases tc)
  from Cons.prems tc have c: "\<not> is_ingest c" and rest: "\<forall>(t, c) \<in> set calls. \<not> is_ingest c"
    by simp_all
  show ?case
    using Cons.IH [OF rest, of "snd (handle rt t s c)"] handle_not_ingest_reading [OF c, of rt t s]
    by (simp add: tc)
qed

lemma run_stays_connected:
  "timestamp s = Some t0 \<Longrightarrow> status s = Connected \<Longrightarrow>
   \<forall>(t, c) \<in> set calls. \<not> is_ingest c \<and> (c = GetSensorData \<longrightarrow> t - t0 \<le> 10 * 1000000) \<Longrightarrow>
   status (run rt s calls) = Connected"
proof (induction calls arbitrary: s)
  case Nil
  then show ?case by simp
next
  case (Cons tc calls)
  obtain t c where tc: "tc = (t, c)" by (cases tc)
  from Cons.prems tc have c: "\<not> is_ingest c"
    and t: "c = GetSensorData \<longrightarrow> t - t0 \<le> 10 * 1000000"
    and rest: "\<forall>(t, c) \<in> set calls.
        \<not> is_ingest c \<and> (c = GetSensorData \<longrightarrow> t - t0 \<le> 10 * 1000000)"
    by simp_all
  let ?s = "snd (handle rt t s c)"
  have ts: "timestamp ?s = Some t0"
    using handle_not_ingest_reading [OF c, of rt t s] Cons.prems(1) by simp
  have st: "status ?s = Connected"
    using handle_not_ingest_status [OF c, of rt t s] Cons.prems(1,2) t by auto
  show ?case
    using Cons.IH [OF ts st rest] by (simp add: tc)
qed

text \<open>
  \<open>float_of_int\<close> at the points where \<^verbatim>\<open>float\<close> stops being exact: \<open>2 ^ 53 + 1\<close> is
  rounded to \<open>2 ^ 53\<close>, and \<open>10 ^ 400\<close> is beyond every double.
\<close>

lemma receive_sensor_data_refused:
  "py_float sf v = Inl e \<Longrightarrow> v \<noteq> JNull \<Longrightarrow>
   receive_sensor_data sf now s (post (JObj [(''temperature'', v)])) =
     ((ErrorBody (Str e), 500), s)"
  by (simp add: receive_sensor_data_def post_def)

lemma float_of_int_small: "\<bar>i\<bar> < 2 ^ 53 \<Longrightarrow> float_of_int i = Some (of_int i)"
  by (simp add: float_of_int_def)

lemma float_of_int_rounds: "float_of_int 9007199254740993 = Some 9007199254740992"
  by code_simp

lemma float_of_int_overflow: "float_of_int (10 ^ 400) = None"
  by code_simp

lemma receive_sensor_data_stores:
  "http_method req = POST \<Longrightarrow> get_json req = Inr (JObj kvs) \<Longrightarrow>
   map_of kvs ''temperature'' = Some v \<Longrightarrow> py_float sf v = Inr T \<Longrightarrow>
   receive_sensor_data sf now s req =
     ((IngestBody v now, 200), \<lparr>temperature = Some T, timestamp = Some now, status = Connected\<rparr>)"
  by (cases v) (auto simp: receive_sensor_data_def)

text \<open>
  C1, as the code has it. A request that ingests a temperature is served at clock
  value \<open>t0\<close> and stores \<open>T\<close>, the \<^verbatim>\<open>float\<close> of the value sent; requests that are not
  ingests follow, and then a read at clock value \<open>t1\<close>. When \<open>t1\<close> is at most ten
  seconds after \<open>t0\<close>, and no read between was served more than ten seconds after
  \<open>t0\<close> (as when the clock does not step back), the read reports the temperature \<open>T\<close>
  and the status connected; when \<open>t1\<close> is more than ten seconds after \<open>t0\<close> it reports
  the status disconnected. The status a read reports is computed at the read, from
  the stored record, its status included, and the clock. Clock values are in
  microseconds.
\<close>

theorem sensor_liveness:
  assumes post: "http_method req = POST"
    and body: "get_json req = Inr (JObj kvs)"
    and field: "map_of kvs ''temperature'' = Some v"
    and num: "py_float (str_float rt) v = Inr T"
    and quiet: "\<forall>(t, c) \<in> set calls. \<not> is_ingest c"
  shows
    "(t1 - t0 \<le> 10 * 1000000
        \<and> (\<forall>(t, c) \<in> set calls. c = GetSensorData \<longrightarrow> t - t0 \<le> 10 * 1000000) \<longrightarrow>
        fst (get_sensor_data t1 (run rt (snd (handle rt t0 s (ReceiveSensorData req))) calls)) =
          (SensorBody \<lparr>temperature = Some T, timestamp = Some t0, status = Connected\<rparr>, 200))
     \<and> (t1 - t0 > 10 * 1000000 \<longrightarrow>
        fst (get_sensor_data t1 (run rt (snd (handle rt t0 s (ReceiveSensorData req))) calls)) =
          (SensorBody \<lparr>temperature = Some T, timestamp = Some t0, status = Disconnected\<rparr>, 200))
     \<and> (\<forall>now st. fst (get_sensor_data now st) =
          (SensorBody (st\<lparr>status :=
             (case timestamp st of
                None \<Rightarrow> status st
              | Some last_update \<Rightarrow>
                  if now - last_update > 10 * 1000000 then Disconnected else status st)\<rparr>), 200))"
proof -
  let ?s1 = "snd (handle rt t0 s (ReceiveSensorData req))"
  let ?s2 = "run rt ?s1 calls"
  have s1: "?s1 = \<lparr>temperature = Some T, timestamp = Some t0, status = Connected\<rparr>"
    using receive_sensor_data_stores [OF post body field num] by simp
  have reading: "temperature ?s2 = Some T" "timestamp ?s2 = Some t0"
    using run_not_ingest_reading [OF quiet, of rt ?s1] s1 by simp_all
  have fresh: "fst (get_sensor_data t1 ?s2) =
      (SensorBody \<lparr>temperature = Some T, timestamp = Some t0, status = Connected\<rparr>, 200)"
    if near: "t1 - t0 \<le> 10 * 1000000"
      and reads: "\<forall>(t, c) \<in> set calls. c = GetSensorData \<longrightarrow> t - t0 \<le> 10 * 1000000"
  proof -
    have "\<forall>(t, c) \<in> set calls.
        \<not> is_ingest c \<and> (c = GetSensorData \<longrightarrow> t - t0 \<le> 10 * 1000000)"
      using quiet reads by fastforce
    then have "status ?s2 = Connected"
      using run_stays_connected [of ?s1 t0 calls rt] s1 by simp
    with reading near show ?thesis
      by (simp add: get_sensor_data_def Let_def)
  qed
  have stale: "fst (get_sensor_data t1 ?s2) =
      (SensorBody \<lparr>temperature = Some T, timestamp = Some t0, status = Disconnected\<rparr>, 200)"
    if "t1 - t0 > 10 * 1000000"
    using that reading by (simp add: get_sensor_data_def Let_def)
  have derived: "\<forall>now st. fst (get_sensor_data now st) =
          (SensorBody (st\<lparr>status :=
             (case timestamp st of
                None \<Rightarrow> status st
              | Some last_update \<Rightarrow>
                  if now - last_update > 10 * 1000000 then Disconnected else status st)\<rparr>), 200)"
    by (simp add: get_sensor_data_def Let_def split: option.splits)
  from fresh stale derived show ?thesis by blast
qed

theorem sensor_liveness_witness:
  "fst (get_sensor_data 10000000
     (run example_runtime
        (snd (handle example_runtime 0 latest_sensor_data
          (ReceiveSensorData (post (JObj [(''temperature'', JInt 42)])))))
        [(3000000, GetSensorData), (15000000, HealthCheck)])) =
     (SensorBody \<lparr>temperature = Some (Finite 42), timestamp = Some 0, status = Connected\<rparr>, 200)
   \<and> fst (get_sensor_data 10000001
     (run example_runtime
        (snd (handle example_runtime 0 latest_sensor_data
          (ReceiveSensorData (post (JObj [(''temperature'', JInt 42)])))))
        [(3000000, GetSensorData), (15000000, HealthCheck)])) =
     (SensorBody \<lparr>temperature = Some (Finite 42), timestamp = Some 0, status = Disconnected\<rparr>, 200)"
proof -
  let ?req = "post (JObj [(''temperature'', JInt 42)])"
  let ?calls = "[(3000000 :: int, GetSensorData), (15000000, HealthCheck)]"
  have post: "http_method ?req = POST" by (simp add: post_def)
  have body: "get_json ?req = Inr (JObj [(''temperature'', JInt 42)])" by (simp add: post_def)
  have field: "map_of [(''temperature'', JInt 42)] ''temperature'' = Some (JInt 42)" by simp
  have num: "py_float (str_float example_runtime) (JInt 42) = Inr (Finite 42)"
    by (simp add: float_of_int_small)
  have quiet: "\<forall>(t, c) \<in> set ?calls. \<not> is_ingest c" by simp
  note live = sensor_liveness [OF post body field num quiet, where s = latest_sensor_data and ?t0.0 = 0]
  have near: "(10000000 :: int) - 0 \<le> 10 * 1000000
      \<and> (\<forall>(t, c) \<in> set ?calls. c = GetSensorData \<longrightarrow> t - 0 \<le> 10 * 1000000)"
    by simp
  have far: "(10000001 :: int) - 0 > 10 * 1000000" by simp
  from live [of 10000000] near live [of 10000001] far show ?thesis
    by blast
qed

text \<open>
  Without the condition on the reads between, the first half fails: a read served
  eleven seconds after the ingest writes disconnected into the record, and a read
  served after it at a clock value of five seconds (\<^verbatim>\<open>datetime.now()\<close> is local time and
  can step back) finds the reading fresh and reports the status it finds stored. And
  the temperature reported is the \<^verbatim>\<open>float\<close> of the value sent: an ingest of
  \<open>2 ^ 53 + 1\<close> is read back as \<open>2 ^ 53\<close>.
\<close>

theorem sensor_liveness_counterexample:
  "fst (get_sensor_data 5000000
     (run example_runtime
        (snd (handle example_runtime 0 latest_sensor_data
          (ReceiveSensorData (post (JObj [(''temperature'', JInt 42)])))))
        [(11000000, GetSensorData)])) =
     (SensorBody \<lparr>temperature = Some (Finite 42), timestamp = Some 0, status = Disconnected\<rparr>, 200)
   \<and> (5000000 :: int) - 0 \<le> 10 * 1000000
   \<and> fst (get_sensor_data 5000000
     (run example_runtime
        (snd (handle example_runtime 0 latest_sensor_data
          (ReceiveSensorData (post (JObj [(''temperature'', JInt 9007199254740993)])))))
        [])) =
     (SensorBody \<lparr>temperature = Some (Finite 9007199254740992), timestamp = Some 0,
        status = Connected\<rparr>, 200)"
  by (simp add: receive_sensor_data_def get_sensor_data_def post_def example_runtime_def
      latest_sensor_data_def float_of_int_small float_of_int_rounds Let_def)

section \<open>What a read may change\<close>

text \<open>
  C10. A read leaves the stored temperature and timestamp as they are. The status
  after a read is the status before it, or it was connected and is now disconnected
  (the reading being more than ten seconds old); a read never makes it connected.
  Of all requests, only an ingest can turn a status that is not connected into
  connected.
\<close>

theorem get_sensor_data_frame:
  "temperature (snd (get_sensor_data now s)) = temperature s
   \<and> timestamp (snd (get_sensor_data now s)) = timestamp s
   \<and> (status (snd (get_sensor_data now s)) = status s
      \<or> (status s = Connected \<and> status (snd (get_sensor_data now s)) = Disconnected
          \<and> (\<exists>last_update. timestamp s = Some last_update \<and> now - last_update > 10 * 1000000)))
   \<and> (status (snd (get_sensor_data now s)) = Connected \<longrightarrow> status s = Connected)
   \<and> (\<forall>rt c. status (snd (handle rt now s c)) = Connected \<and> status s \<noteq> Connected \<longrightarrow>
        is_ingest c)"
proof -
  have keep: "temperature (snd (get_sensor_data now s)) = temperature s"
    "timestamp (snd (get_sensor_data now s)) = timestamp s"
    using get_sensor_data_keeps_reading by simp_all
  have change: "status (snd (get_sensor_data now s)) = status s
      \<or> (status s = Connected \<and> status (snd (get_sensor_data now s)) = Disconnected
          \<and> (\<exists>last_update. timestamp s = Some last_update \<and> now - last_update > 10 * 1000000))"
    using handle_not_ingest_status [of GetSensorData rt now s] by simp
  have never: "status (snd (get_sensor_data now s)) = Connected \<longrightarrow> status s = Connected"
    using change by auto
  have sole: "is_ingest c"
    if "status (snd (handle rt now s c)) = Connected \<and> status s \<noteq> Connected" for rt c
  proof (rule ccontr)
    assume "\<not> is_ingest c"
    from handle_not_ingest_status [OF this, of rt now s] that show False by auto
  qed
  from keep change never sole show ?thesis by blast
qed

theorem get_sensor_data_frame_witness:
  "status (snd (get_sensor_data 10000001
      \<lparr>temperature = Some (Finite 42), timestamp = Some 0, status = Connected\<rparr>)) = Disconnected
   \<and> temperature (snd (get_sensor_data 10000001
      \<lparr>temperature = Some (Finite 42), timestamp = Some 0, status = Connected\<rparr>)) = Some (Finite 42)
   \<and> status (snd (handle
        \<lparr>model = None, fetch = (\<lambda>lat lon. Inl (LibraryError ''offline'')),
         str_float = (\<lambda>s. None)\<rparr> 7 latest_sensor_data
        (ReceiveSensorData
          \<lparr>http_method = POST, get_json = Inr (JObj [(''temperature'', JInt 42)])\<rparr>))) = Connected
   \<and> status latest_sensor_data \<noteq> Connected
   \<and> is_ingest (ReceiveSensorData
          \<lparr>http_method = POST, get_json = Inr (JObj [(''temperature'', JInt 42)])\<rparr>)"
proof -
  let ?s = "\<lparr>temperature = Some (Finite 42), timestamp = Some 0, status = Connected\<rparr>"
  let ?rt = "\<lparr>model = None, fetch = (\<lambda>lat lon. Inl (LibraryError ''offline'')),
         str_float = (\<lambda>s. None)\<rparr>"
  let ?c = "ReceiveSensorData
          \<lparr>http_method = POST, get_json = Inr (JObj [(''temperature'', JInt 42)])\<rparr>"
  have flip: "status (snd (get_sensor_data 10000001 ?s)) = Disconnected"
    by (simp add: get_sensor_data_def Let_def)
  have temp: "temperature (snd (get_sensor_data 10000001 ?s)) = Some (Finite 42)"
    using get_sensor_data_frame [of 10000001 ?s] by simp
  have made: "status (snd (handle ?rt 7 latest_sensor_data ?c)) = Connected"
    by (simp add: receive_sensor_data_def float_of_int_def)
  have was: "status latest_sensor_data \<noteq> Connected"
    by (simp add: latest_sensor_data_def)
  have "is_ingest ?c"
    using get_sensor_data_frame [of 7 latest_sensor_data] made was by blast
  with flip temp made was show ?thesis by blast
qed

section \<open>A model that did not load\<close>

text \<open>
  C7. When loading the model raised, \<^verbatim>\<open>model\<close> is \<^verbatim>\<open>None\<close>, and every request to
  either prediction endpoint that is not a preflight is answered with status 500 and
  the error \<^verbatim>\<open>Model not loaded\<close>, whatever the request holds, with no call to the
  forecast provider or to a classifier.
\<close>

theorem model_not_loaded:
  "load_model (Inl e) = None
   \<and> (http_method req \<noteq> OPTIONS \<longrightarrow>
        predict (load_model (Inl e)) req = ((ErrorBody (Text ''Model not loaded''), 500), [])
        \<and> predict_with_sensor (load_model (Inl e)) forecast s req =
            ((ErrorBody (Text ''Model not loaded''), 500), []))"
  by (simp add: load_model_def predict_def predict_with_sensor_def)

theorem model_not_loaded_witness:
  "http_method \<lparr>http_method = POST, get_json = Inr (JObj [(''latitude'', JInt 19), (''longitude'', JInt 73)])\<rparr> \<noteq> OPTIONS
   \<and> predict_with_sensor (load_model (Inl (LibraryError ''No such file''))) (\<lambda>lat lon. Inr (JObj []))
       latest_sensor_data
       \<lparr>http_method = POST, get_json = Inr (JObj [(''latitude'', JInt 19), (''longitude'', JInt 73)])\<rparr>
     = ((ErrorBody (Text ''Model not loaded''), 500), [])
   \<and> predict (load_model (Inl (LibraryError ''No such file'')))
       \<lparr>http_method = POST, get_json = Inr (JObj [(''latitude'', JInt 19), (''longitude'', JInt 73)])\<rparr>
     = ((ErrorBody (Text ''Model not loaded''), 500), [])"
proof -
  let ?req = "\<lparr>http_method = POST, get_json = Inr (JObj [(''latitude'', JInt 19), (''longitude'', JInt 73)])\<rparr>"
  have post: "http_method ?req \<noteq> OPTIONS" by simp
  from post model_not_loaded [of "LibraryError ''No such file''" ?req
      "\<lambda>lat lon. Inr (JObj [])" latest_sensor_data]
  show ?thesis by blast
qed

section \<open>What a handler's result says about its run\<close>

text \<open>
  A run that ends in a value went through every step before it, and an outside call
  in the trace was made by the one step that makes it. The lemmas below read the steps
  of the two \<^verbatim>\<open>try\<close> blocks back from a result.
\<close>

lemma bind_eff_InrD:
  "bind_eff m f = (ev, Inr y) \<Longrightarrow>
   \<exists>ev1 x ev2. m = (ev1, Inr x) \<and> f x = (ev2, Inr y) \<and> ev = ev1 @ ev2"
  by (auto simp: bind_eff_def split: prod.splits sum.splits)

lemma predict_try_success:
  assumes "predict_try m req = (ev, Inr resp)"
  shows "\<exists>data a b c d e ps label.
     get_json req = Inr data
     \<and> py_getitem data ''temperature_2m_max'' = Inr a
     \<and> py_getitem data ''temperature_2m_min'' = Inr b
     \<and> py_getitem data ''wind_speed_10m_max'' = Inr c
     \<and> py_getitem data ''wind_gusts_10m_max'' = Inr d
     \<and> py_getitem data ''precipitation_sum'' = Inr e
     \<and> ev = [ModelPredict [a, b, c, d, e], ModelPredictProba [a, b, c, d, e]]
     \<and> clf_predict_proba m [a, b, c, d, e] = Inr ps
     \<and> 3 \<le> length ps
     \<and> (\<exists>code. clf_predict m [a, b, c, d, e] = Inr code
     \<and> risk_label code = Inr label
     \<and> resp = (PredictBody
         \<lparr>risk = label, risk_code = code,
          confidence_low = ps ! 0, confidence_medium = ps ! 1, confidence_high = ps ! 2,
          recommendations = get_recommendations label\<rparr>, 200))"
  using assms unfolding predict_try_def Let_def
  apply -
  apply (drule bind_eff_InrD, elim exE conjE)+
  apply (auto simp: lift_def model_predict_def model_predict_proba_def py_index_def split: if_splits)
  done


lemma if_eqD: "(if c then x else y) = z \<Longrightarrow> (c \<and> x = z) \<or> (\<not> c \<and> y = z)"
  by (simp split: if_splits)

lemma predict_with_sensor_try_success:
  assumes "predict_with_sensor_try m forecast s req = (ev, Inr (b, 200))"
  shows "\<exists>data latitude longitude use_sensor meteo_data daily temp_max source
       temp_min wind_speed wind_gusts precipitation code ps label.
     get_json req = Inr data
     \<and> py_get data ''latitude'' JNull = Inr latitude
     \<and> py_get data ''longitude'' JNull = Inr longitude
     \<and> py_get data ''use_sensor'' (JBool False) = Inr use_sensor
     \<and> truthy latitude \<and> truthy longitude
     \<and> forecast latitude longitude = Inr meteo_data
     \<and> py_getitem meteo_data ''daily'' = Inr daily
     \<and> choose_temp_max use_sensor s daily = Inr (temp_max, source)
     \<and> daily0 daily ''temperature_2m_min'' = Inr temp_min
     \<and> daily0 daily ''wind_speed_10m_max'' = Inr wind_speed
     \<and> daily0 daily ''wind_gusts_10m_max'' = Inr wind_gusts
     \<and> daily0 daily ''precipitation_sum'' = Inr precipitation
     \<and> ev = [RequestsGet latitude longitude,
             ModelPredict [temp_max, temp_min, wind_speed, wind_gusts, precipitation],
             ModelPredictProba [temp_max, temp_min, wind_speed, wind_gusts, precipitation]]
     \<and> clf_predict m [temp_max, temp_min, wind_speed, wind_gusts, precipitation] = Inr code
     \<and> clf_predict_proba m [temp_max, temp_min, wind_speed, wind_gusts, precipitation] = Inr ps
     \<and> 3 \<le> length ps
     \<and> risk_label code = Inr label
     \<and> b = PredictSensorBody
         \<lparr>risk = label, risk_code = code,
          confidence_low = ps ! 0, confidence_medium = ps ! 1, confidence_high = ps ! 2,
          recommendations = get_recommendations label,
          used_temperature_max = temp_max, used_temperature_min = temp_min,
          used_wind_speed_max = wind_speed, used_wind_gusts_max = wind_gusts,
          used_precipitation = precipitation,
          data_source = source, sensor_status = status s,
          sensor_note =
            (if \<not> truthy use_sensor then Some ''Hardware functionality not yet implemented''
             else None)\<rparr>"
  using assms unfolding predict_with_sensor_try_def Let_def
  apply -
  apply (drule bind_eff_InrD, elim exE conjE)+
  apply (drule if_eqD, erule disjE)
   apply (simp add: lift_def)
  apply (erule conjE)
  apply (drule bind_eff_InrD, elim exE conjE)+
  apply (clarsimp simp: lift_def requests_get_def)
  apply (drule bind_eff_InrD, elim exE conjE)+
  apply (auto simp: lift_def model_predict_def model_predict_proba_def py_index_def split: if_splits)
  done


lemma bind_eff_events:
  "x \<in> set (fst (bind_eff m f)) \<Longrightarrow>
   x \<in> set (fst m) \<or> (\<exists>y. snd m = Inr y \<and> x \<in> set (fst (f y)))"
  by (auto simp: bind_eff_def split: prod.splits sum.splits)

lemma bind_lift_events:
  "x \<in> set (fst (bind_eff (lift r) f)) \<Longrightarrow> \<exists>y. r = Inr y \<and> x \<in> set (fst (f y))"
  by (auto simp: bind_eff_def lift_def split: prod.splits sum.splits)



lemma classify_events:
  "x \<in> set (fst (bind_eff (model_predict m fv) (\<lambda>prediction.
      bind_eff (model_predict_proba m fv) (\<lambda>probabilities. bind_eff (lift (r prediction))
        (\<lambda>label. bind_eff (lift (i0 probabilities)) (\<lambda>p0. bind_eff (lift (i1 probabilities))
          (\<lambda>p1. bind_eff (lift (i2 probabilities)) (\<lambda>p2. lift (k prediction probabilities label p0 p1 p2))))))))) \<Longrightarrow>
   x = ModelPredict fv \<or> x = ModelPredictProba fv"
  apply (drule bind_eff_events, erule disjE)
   apply (simp add: model_predict_def)
  apply (elim exE conjE)
  apply (drule bind_eff_events, erule disjE)
   apply (simp add: model_predict_proba_def)
  apply (elim exE conjE)
  apply ((drule bind_lift_events, elim exE conjE)+)
  apply (simp add: lift_def)
  done


lemma predict_try_events:
  assumes "x \<in> set (fst (predict_try m req))"
  shows "\<exists>data a b c d e.
     get_json req = Inr data
     \<and> py_getitem data ''temperature_2m_max'' = Inr a
     \<and> py_getitem data ''temperature_2m_min'' = Inr b
     \<and> py_getitem data ''wind_speed_10m_max'' = Inr c
     \<and> py_getitem data ''wind_gusts_10m_max'' = Inr d
     \<and> py_getitem data ''precipitation_sum'' = Inr e
     \<and> (x = ModelPredict [a, b, c, d, e] \<or> x = ModelPredictProba [a, b, c, d, e])"
  using assms unfolding predict_try_def Let_def
  apply -
  apply ((drule bind_lift_events, elim exE conjE)+)
  apply (drule classify_events)
  apply auto
  done

text \<open>
  A response with status 200 comes from a \<^verbatim>\<open>try\<close> block that ran to its end with a
  model loaded; the outside calls of a handler are those of its \<^verbatim>\<open>try\<close> block.
\<close>

lemma predict_200D:
  "fst (predict loaded req) = (b, 200) \<Longrightarrow>
   \<exists>m. loaded = Some m \<and> predict_try m req = (snd (predict loaded req), Inr (b, 200))"
  by (auto simp: predict_def split: if_splits option.splits prod.splits sum.splits)

lemma predict_with_sensor_200D:
  "fst (predict_with_sensor loaded forecast s req) = (b, 200) \<Longrightarrow>
   \<exists>m. loaded = Some m
     \<and> predict_with_sensor_try m forecast s req =
         (snd (predict_with_sensor loaded forecast s req), Inr (b, 200))"
  by (auto simp: predict_with_sensor_def split: if_splits option.splits prod.splits sum.splits)

lemma predict_eventsD:
  "x \<in> set (snd (predict loaded req)) \<Longrightarrow>
   \<exists>m. loaded = Some m \<and> x \<in> set (fst (predict_try m req))"
  by (auto simp: predict_def split: if_splits option.splits prod.splits sum.splits)


lemmas run_defs =
  predict_def predict_try_def predict_with_sensor_def predict_with_sensor_try_def
  bind_eff_def lift_def requests_get_def model_predict_def model_predict_proba_def
  risk_label_def RISK_LABELS_def py_index_def daily0_def choose_temp_max_def post_def
  example_model_def example_forecast_def example_features_def example_coordinates_def
  example_stale_sensor_def Let_def

lemma example_predict:
  "predict (Some example_model) (post example_features) =
     ((PredictBody
        \<lparr>risk = ''High'', risk_code = 2,
         confidence_low = 1 / 10, confidence_medium = 1 / 5, confidence_high = 7 / 10,
         recommendations = get_recommendations ''High''\<rparr>, 200),
      [ModelPredict [JInt 35, JInt 24, JInt 10, JInt 15, JInt 0],
       ModelPredictProba [JInt 35, JInt 24, JInt 10, JInt 15, JInt 0]])"
  by (simp add: run_defs)

lemma example_predict_with_sensor:
  "predict_with_sensor (Some example_model) example_forecast example_stale_sensor
     (post (example_coordinates True)) =
     ((PredictSensorBody
        \<lparr>risk = ''High'', risk_code = 2,
         confidence_low = 1 / 10, confidence_medium = 1 / 5, confidence_high = 7 / 10,
         recommendations = get_recommendations ''High'',
         used_temperature_max = JFloat (Finite 42), used_temperature_min = JInt 24,
         used_wind_speed_max = JInt 10, used_wind_gusts_max = JInt 15,
         used_precipitation = JInt 0,
         data_source = ''sensor'', sensor_status = Disconnected, sensor_note = None\<rparr>, 200),
      [RequestsGet (JInt 19) (JInt 73),
       ModelPredict [JFloat (Finite 42), JInt 24, JInt 10, JInt 15, JInt 0],
       ModelPredictProba [JFloat (Finite 42), JInt 24, JInt 10, JInt 15, JInt 0]])"
  by (simp add: run_defs)


lemma risk_label_table:
  "risk_label code = Inr label \<Longrightarrow> map_of RISK_LABELS code = Some label"
  by (simp add: risk_label_def split: option.splits)

section \<open>The feature vector\<close>

text \<open>
  C4. Whenever a prediction endpoint answers with status 200, the classifier was
  called on one list of five features, in the order maximum temperature, minimum
  temperature, maximum wind speed, maximum wind gust, precipitation sum: in direct
  mode the five fields of the request in that order, in coordinate mode the chosen
  maximum temperature followed by the forecast's other four values.
\<close>

theorem feature_vector_order:
  "(fst (predict loaded req) = (b, 200) \<longrightarrow>
      (\<exists>data temperature_max temperature_min wind_speed_max wind_gust_max precipitation_sum.
         get_json req = Inr data
         \<and> py_getitem data ''temperature_2m_max'' = Inr temperature_max
         \<and> py_getitem data ''temperature_2m_min'' = Inr temperature_min
         \<and> py_getitem data ''wind_speed_10m_max'' = Inr wind_speed_max
         \<and> py_getitem data ''wind_gusts_10m_max'' = Inr wind_gust_max
         \<and> py_getitem data ''precipitation_sum'' = Inr precipitation_sum
         \<and> snd (predict loaded req) =
             [ModelPredict [temperature_max, temperature_min, wind_speed_max, wind_gust_max,
                precipitation_sum],
              ModelPredictProba [temperature_max, temperature_min, wind_speed_max,
                wind_gust_max, precipitation_sum]]))
   \<and> (fst (predict_with_sensor loaded forecast s req) = (b', 200) \<longrightarrow>
      (\<exists>data latitude longitude use_sensor meteo_data daily temperature_max source
          temperature_min wind_speed_max wind_gust_max precipitation_sum.
         get_json req = Inr data
         \<and> py_get data ''latitude'' JNull = Inr latitude
         \<and> py_get data ''longitude'' JNull = Inr longitude
         \<and> py_get data ''use_sensor'' (JBool False) = Inr use_sensor
         \<and> forecast latitude longitude = Inr meteo_data
         \<and> py_getitem meteo_data ''daily'' = Inr daily
         \<and> choose_temp_max use_sensor s daily = Inr (temperature_max, source)
         \<and> daily0 daily ''temperature_2m_min'' = Inr temperature_min
         \<and> daily0 daily ''wind_speed_10m_max'' = Inr wind_speed_max
         \<and> daily0 daily ''wind_gusts_10m_max'' = Inr wind_gust_max
         \<and> daily0 daily ''precipitation_sum'' = Inr precipitation_sum
         \<and> snd (predict_with_sensor loaded forecast s req) =
             [RequestsGet latitude longitude,
              ModelPredict [temperature_max, temperature_min, wind_speed_max, wind_gust_max,
                precipitation_sum],
              ModelPredictProba [temperature_max, temperature_min, wind_speed_max,
                wind_gust_max, precipitation_sum]]))"
proof (intro conjI impI)
  assume "fst (predict loaded req) = (b, 200)"
  then obtain m where "predict_try m req = (snd (predict loaded req), Inr (b, 200))"
    using predict_200D by blast
  from predict_try_success [OF this]
  show "\<exists>data temperature_max temperature_min wind_speed_max wind_gust_max precipitation_sum.
         get_json req = Inr data
         \<and> py_getitem data ''temperature_2m_max'' = Inr temperature_max
         \<and> py_getitem data ''temperature_2m_min'' = Inr temperature_min
         \<and> py_getitem data ''wind_speed_10m_max'' = Inr wind_speed_max
         \<and> py_getitem data ''wind_gusts_10m_max'' = Inr wind_gust_max
         \<and> py_getitem data ''precipitation_sum'' = Inr precipitation_sum
         \<and> snd (predict loaded req) =
             [ModelPredict [temperature_max, temperature_min, wind_speed_max, wind_gust_max,
                precipitation_sum],
              ModelPredictProba [temperature_max, temperature_min, wind_speed_max,
                wind_gust_max, precipitation_sum]]"
    by blast
next
  assume "fst (predict_with_sensor loaded forecast s req) = (b', 200)"
  then obtain m where "predict_with_sensor_try m forecast s req =
      (snd (predict_with_sensor loaded forecast s req), Inr (b', 200))"
    using predict_with_sensor_200D by blast
  from predict_with_sensor_try_success [OF this]
  show "\<exists>data latitude longitude use_sensor meteo_data daily temperature_max source
          temperature_min wind_speed_max wind_gust_max precipitation_sum.
         get_json req = Inr data
         \<and> py_get data ''latitude'' JNull = Inr latitude
         \<and> py_get data ''longitude'' JNull = Inr longitude
         \<and> py_get data ''use_sensor'' (JBool False) = Inr use_sensor
         \<and> forecast latitude longitude = Inr meteo_data
         \<and> py_getitem meteo_data ''daily'' = Inr daily
         \<and> choose_temp_max use_sensor s daily = Inr (temperature_max, source)
         \<and> daily0 daily ''temperature_2m_min'' = Inr temperature_min
         \<and> daily0 daily ''wind_speed_10m_max'' = Inr wind_speed_max
         \<and> daily0 daily ''wind_gusts_10m_max'' = Inr wind_gust_max
         \<and> daily0 daily ''precipitation_sum'' = Inr precipitation_sum
         \<and> snd (predict_with_sensor loaded forecast s req) =
             [RequestsGet latitude longitude,
              ModelPredict [temperature_max, temperature_min, wind_speed_max, wind_gust_max,
                precipitation_sum],
              ModelPredictProba [temperature_max, temperature_min, wind_speed_max,
                wind_gust_max, precipitation_sum]]"
    by blast
qed


theorem feature_vector_order_witness:
  "snd (predict (Some example_model) (post example_features)) =
     [ModelPredict [JInt 35, JInt 24, JInt 10, JInt 15, JInt 0],
      ModelPredictProba [JInt 35, JInt 24, JInt 10, JInt 15, JInt 0]]
   \<and> snd (predict_with_sensor (Some example_model) example_forecast example_stale_sensor
       (post (example_coordinates True))) =
     [RequestsGet (JInt 19) (JInt 73),
      ModelPredict [JFloat (Finite 42), JInt 24, JInt 10, JInt 15, JInt 0],
      ModelPredictProba [JFloat (Finite 42), JInt 24, JInt 10, JInt 15, JInt 0]]"
proof
  let ?req = "post example_features"
  have ok: "fst (predict (Some example_model) ?req) =
      (PredictBody
        \<lparr>risk = ''High'', risk_code = 2,
         confidence_low = 1 / 10, confidence_medium = 1 / 5, confidence_high = 7 / 10,
         recommendations = get_recommendations ''High''\<rparr>, 200)"
    by (simp add: example_predict)
  from feature_vector_order [THEN conjunct1, rule_format, OF ok]
  obtain data a b c d e where
    "get_json ?req = Inr data"
    "py_getitem data ''temperature_2m_max'' = Inr a"
    "py_getitem data ''temperature_2m_min'' = Inr b"
    "py_getitem data ''wind_speed_10m_max'' = Inr c"
    "py_getitem data ''wind_gusts_10m_max'' = Inr d"
    "py_getitem data ''precipitation_sum'' = Inr e"
    "snd (predict (Some example_model) ?req) =
       [ModelPredict [a, b, c, d, e], ModelPredictProba [a, b, c, d, e]]"
    by blast
  then show "snd (predict (Some example_model) ?req) =
     [ModelPredict [JInt 35, JInt 24, JInt 10, JInt 15, JInt 0],
      ModelPredictProba [JInt 35, JInt 24, JInt 10, JInt 15, JInt 0]]"
    by (auto simp: post_def example_features_def)
next
  let ?req = "post (example_coordinates True)"
  let ?run = "predict_with_sensor (Some example_model) example_forecast example_stale_sensor ?req"
  have ok: "fst ?run =
      (PredictSensorBody
        \<lparr>risk = ''High'', risk_code = 2,
         confidence_low = 1 / 10, confidence_medium = 1 / 5, confidence_high = 7 / 10,
         recommendations = get_recommendations ''High'',
         used_temperature_max = JFloat (Finite 42), used_temperature_min = JInt 24,
         used_wind_speed_max = JInt 10, used_wind_gusts_max = JInt 15,
         used_precipitation = JInt 0,
         data_source = ''sensor'', sensor_status = Disconnected, sensor_note = None\<rparr>, 200)"
    by (simp add: example_predict_with_sensor)
  from feature_vector_order [THEN conjunct2, rule_format, OF ok]
  obtain data latitude longitude use_sensor meteo_data daily a source b c d e where
    "get_json ?req = Inr data"
    "py_get data ''latitude'' JNull = Inr latitude"
    "py_get data ''longitude'' JNull = Inr longitude"
    "py_get data ''use_sensor'' (JBool False) = Inr use_sensor"
    "example_forecast latitude longitude = Inr meteo_data"
    "py_getitem meteo_data ''daily'' = Inr daily"
    "choose_temp_max use_sensor example_stale_sensor daily = Inr (a, source)"
    "daily0 daily ''temperature_2m_min'' = Inr b"
    "daily0 daily ''wind_speed_10m_max'' = Inr c"
    "daily0 daily ''wind_gusts_10m_max'' = Inr d"
    "daily0 daily ''precipitation_sum'' = Inr e"
    "snd ?run =
       [RequestsGet latitude longitude, ModelPredict [a, b, c, d, e],
        ModelPredictProba [a, b, c, d, e]]"
    by blast
  then show "snd ?run =
     [RequestsGet (JInt 19) (JInt 73),
      ModelPredict [JFloat (Finite 42), JInt 24, JInt 10, JInt 15, JInt 0],
      ModelPredictProba [JFloat (Finite 42), JInt 24, JInt 10, JInt 15, JInt 0]]"
    by (auto simp: post_def example_coordinates_def example_forecast_def
        example_stale_sensor_def choose_temp_max_def daily0_def)
qed

section \<open>The fields of a prediction\<close>

text \<open>
  C9. In a response with status 200 of either prediction endpoint, \<^verbatim>\<open>risk\<close> is the
  label that \<^verbatim>\<open>RISK_LABELS\<close> (0 Low, 1 Medium, 2 High) gives \<^verbatim>\<open>risk_code\<close>, which is the
  class the classifier predicted; the three confidences are the classifier's
  probabilities at indices 0, 1 and 2 for the same features; and the recommendations
  are \<open>get_recommendations\<close> of that label.
\<close>

theorem prediction_consistent:
  "(fst (predict loaded req) = (b, 200) \<longrightarrow>
      (\<exists>p m features probabilities.
         b = PredictBody p \<and> loaded = Some m
         \<and> snd (predict loaded req) = [ModelPredict features, ModelPredictProba features]
         \<and> clf_predict m features = Inr (risk_code p)
         \<and> clf_predict_proba m features = Inr probabilities
         \<and> 3 \<le> length probabilities
         \<and> map_of RISK_LABELS (risk_code p) = Some (risk p)
         \<and> confidence_low p = probabilities ! 0
         \<and> confidence_medium p = probabilities ! 1
         \<and> confidence_high p = probabilities ! 2
         \<and> recommendations p = get_recommendations (risk p)))
   \<and> (fst (predict_with_sensor loaded forecast s req) = (b', 200) \<longrightarrow>
      (\<exists>p m features probabilities latitude longitude.
         b' = PredictSensorBody p \<and> loaded = Some m
         \<and> snd (predict_with_sensor loaded forecast s req) =
             [RequestsGet latitude longitude, ModelPredict features, ModelPredictProba features]
         \<and> clf_predict m features = Inr (risk_code p)
         \<and> clf_predict_proba m features = Inr probabilities
         \<and> 3 \<le> length probabilities
         \<and> map_of RISK_LABELS (risk_code p) = Some (risk p)
         \<and> confidence_low p = probabilities ! 0
         \<and> confidence_medium p = probabilities ! 1
         \<and> confidence_high p = probabilities ! 2
         \<and> recommendations p = get_recommendations (risk p)))
   \<and> RISK_LABELS = [(0, ''Low''), (1, ''Medium''), (2, ''High'')]"
proof (intro conjI impI)
  assume "fst (predict loaded req) = (b, 200)"
  then obtain m where m: "loaded = Some m"
    and run: "predict_try m req = (snd (predict loaded req), Inr (b, 200))"
    using predict_200D by blast
  from predict_try_success [OF run] m
  show "\<exists>p m features probabilities.
         b = PredictBody p \<and> loaded = Some m
         \<and> snd (predict loaded req) = [ModelPredict features, ModelPredictProba features]
         \<and> clf_predict m features = Inr (risk_code p)
         \<and> clf_predict_proba m features = Inr probabilities
         \<and> 3 \<le> length probabilities
         \<and> map_of RISK_LABELS (risk_code p) = Some (risk p)
         \<and> confidence_low p = probabilities ! 0
         \<and> confidence_medium p = probabilities ! 1
         \<and> confidence_high p = probabilities ! 2
         \<and> recommendations p = get_recommendations (risk p)"
    by (fastforce dest: risk_label_table)
next
  assume "fst (predict_with_sensor loaded forecast s req) = (b', 200)"
  then obtain m where m: "loaded = Some m"
    and run: "predict_with_sensor_try m forecast s req =
      (snd (predict_with_sensor loaded forecast s req), Inr (b', 200))"
    using predict_with_sensor_200D by blast
  from predict_with_sensor_try_success [OF run] m
  show "\<exists>p m features probabilities latitude longitude.
         b' = PredictSensorBody p \<and> loaded = Some m
         \<and> snd (predict_with_sensor loaded forecast s req) =
             [RequestsGet latitude longitude, ModelPredict features, ModelPredictProba features]
         \<and> clf_predict m features = Inr (risk_code p)
         \<and> clf_predict_proba m features = Inr probabilities
         \<and> 3 \<le> length probabilities
         \<and> map_of RISK_LABELS (risk_code p) = Some (risk p)
         \<and> confidence_low p = probabilities ! 0
         \<and> confidence_medium p = probabilities ! 1
         \<and> confidence_high p = probabilities ! 2
         \<and> recommendations p = get_recommendations (risk p)"
    by (fastforce dest: risk_label_table)
next
  show "RISK_LABELS = [(0, ''Low''), (1, ''Medium''), (2, ''High'')]"
    by (simp add: RISK_LABELS_def)
qed


theorem prediction_consistent_witness:
  "fst (predict (Some example_model) (post example_features)) =
     (PredictBody
        \<lparr>risk = ''High'', risk_code = 2,
         confidence_low = 1 / 10, confidence_medium = 1 / 5, confidence_high = 7 / 10,
         recommendations = get_recommendations ''High''\<rparr>, 200)
   \<and> map_of RISK_LABELS 2 = Some ''High''
   \<and> clf_predict example_model [JInt 35, JInt 24, JInt 10, JInt 15, JInt 0] = Inr 2
   \<and> clf_predict_proba example_model [JInt 35, JInt 24, JInt 10, JInt 15, JInt 0] =
       Inr [1 / 10, 1 / 5, 7 / 10]
   \<and> snd (fst (predict_with_sensor (Some example_model) example_forecast example_stale_sensor
       (post (example_coordinates True)))) = 200
   \<and> clf_predict example_model [JFloat (Finite 42), JInt 24, JInt 10, JInt 15, JInt 0] = Inr 2"
proof -
  let ?req = "post example_features"
  let ?p = "\<lparr>risk = ''High'', risk_code = 2,
         confidence_low = 1 / 10, confidence_medium = 1 / 5, confidence_high = 7 / 10,
         recommendations = get_recommendations ''High''\<rparr>"
  have ok: "fst (predict (Some example_model) ?req) = (PredictBody ?p, 200)"
    by (simp add: example_predict)
  from prediction_consistent [THEN conjunct1, rule_format, OF ok]
  obtain p m features where
    p: "PredictBody ?p = PredictBody p" and m: "Some example_model = Some m"
    and trace: "snd (predict (Some example_model) ?req) =
       [ModelPredict features, ModelPredictProba features]"
    and code: "clf_predict m features = Inr (risk_code p)"
    and label: "map_of RISK_LABELS (risk_code p) = Some (risk p)"
    by blast
  from trace have features: "features = [JInt 35, JInt 24, JInt 10, JInt 15, JInt 0]"
    by (simp add: example_predict)
  from p have p': "p = ?p" by simp
  from label p' have direct_label: "map_of RISK_LABELS 2 = Some ''High''" by simp
  from code m features p'
  have direct_code:
    "clf_predict example_model [JInt 35, JInt 24, JInt 10, JInt 15, JInt 0] = Inr 2"
    by simp
  have direct_proba:
    "clf_predict_proba example_model [JInt 35, JInt 24, JInt 10, JInt 15, JInt 0] =
       Inr [1 / 10, 1 / 5, 7 / 10]"
    by (simp add: example_model_def)
  let ?run = "predict_with_sensor (Some example_model) example_forecast example_stale_sensor
       (post (example_coordinates True))"
  let ?q = "\<lparr>risk = ''High'', risk_code = 2,
         confidence_low = 1 / 10, confidence_medium = 1 / 5, confidence_high = 7 / 10,
         recommendations = get_recommendations ''High'',
         used_temperature_max = JFloat (Finite 42), used_temperature_min = JInt 24,
         used_wind_speed_max = JInt 10, used_wind_gusts_max = JInt 15,
         used_precipitation = JInt 0,
         data_source = ''sensor'', sensor_status = Disconnected, sensor_note = None\<rparr>"
  have ok2: "fst ?run = (PredictSensorBody ?q, 200)"
    by (simp add: example_predict_with_sensor)
  from prediction_consistent [THEN conjunct2, THEN conjunct1, rule_format, OF ok2]
  obtain q m2 features2 latitude longitude where
    q: "PredictSensorBody ?q = PredictSensorBody q" and m2: "Some example_model = Some m2"
    and trace2: "snd ?run =
       [RequestsGet latitude longitude, ModelPredict features2, ModelPredictProba features2]"
    and code2: "clf_predict m2 features2 = Inr (risk_code q)"
    by blast
  from trace2 have features2:
    "features2 = [JFloat (Finite 42), JInt 24, JInt 10, JInt 15, JInt 0]"
    by (simp add: example_predict_with_sensor)
  from q have q': "q = ?q" by simp
  from code2 m2 features2 q'
  have sensor_code:
    "clf_predict example_model [JFloat (Finite 42), JInt 24, JInt 10, JInt 15, JInt 0] = Inr 2"
    by simp
  from ok2 have status2: "snd (fst ?run) = 200" by simp
  from ok direct_label direct_code direct_proba status2 sensor_code show ?thesis
    by blast
qed

section \<open>Where the maximum temperature comes from\<close>









section \<open>Direct requests with fields missing\<close>

lemma predict_try_missing:
  assumes "get_json req = Inr (JObj kvs)"
    and "\<exists>k \<in> set feature_keys. map_of kvs k = None"
  shows "predict_try m req =
     ([], Inl (KeyError (JStr (hd (filter (\<lambda>k. map_of kvs k = None) feature_keys)))))"
proof -
  have keys: "map_of kvs ''temperature_2m_max'' = None
      \<or> map_of kvs ''temperature_2m_min'' = None
      \<or> map_of kvs ''wind_speed_10m_max'' = None
      \<or> map_of kvs ''wind_gusts_10m_max'' = None
      \<or> map_of kvs ''precipitation_sum'' = None"
    using assms(2) by (simp add: feature_keys_def)
  show ?thesis
  proof (cases "map_of kvs ''temperature_2m_max''")
    case None
    with assms(1) show ?thesis
      by (simp add: predict_try_def bind_eff_def lift_def feature_keys_def)
  next
    case a: (Some a)
    show ?thesis
    proof (cases "map_of kvs ''temperature_2m_min''")
      case None
      with assms(1) a show ?thesis
        by (simp add: predict_try_def bind_eff_def lift_def feature_keys_def)
    next
      case b: (Some b)
      show ?thesis
      proof (cases "map_of kvs ''wind_speed_10m_max''")
        case None
        with assms(1) a b show ?thesis
          by (simp add: predict_try_def bind_eff_def lift_def feature_keys_def)
      next
        case c: (Some c)
        show ?thesis
        proof (cases "map_of kvs ''wind_gusts_10m_max''")
          case None
          with assms(1) a b c show ?thesis
            by (simp add: predict_try_def bind_eff_def lift_def feature_keys_def)
        next
          case d: (Some d)
          with keys a b c have "map_of kvs ''precipitation_sum'' = None" by simp
          with assms(1) a b c d show ?thesis
            by (simp add: predict_try_def bind_eff_def lift_def feature_keys_def)
        qed
      qed
    qed
  qed
qed

lemma predict_try_present:
  assumes "get_json req = Inr (JObj kvs)"
    and "map_of kvs ''temperature_2m_max'' = Some a"
    and "map_of kvs ''temperature_2m_min'' = Some b"
    and "map_of kvs ''wind_speed_10m_max'' = Some c"
    and "map_of kvs ''wind_gusts_10m_max'' = Some d"
    and "map_of kvs ''precipitation_sum'' = Some e"
  shows "\<exists>rest. fst (predict_try m req) = ModelPredict [a, b, c, d, e] # rest
     \<and> set rest \<subseteq> {ModelPredictProba [a, b, c, d, e]}"
proof -
  have first: "\<exists>rest. fst (predict_try m req) = ModelPredict [a, b, c, d, e] # rest"
    using assms
    by (auto simp: predict_try_def bind_eff_def lift_def model_predict_def Let_def
        split: sum.splits prod.splits)
  then obtain rest where rest: "fst (predict_try m req) = ModelPredict [a, b, c, d, e] # rest"
    by blast
  have "x = ModelPredictProba [a, b, c, d, e]" if "x \<in> set rest" for x
  proof -
    from that rest have mem: "x \<in> set (fst (predict_try m req))" by simp
    from predict_try_events [OF mem] assms
    have either: "x = ModelPredict [a, b, c, d, e] \<or> x = ModelPredictProba [a, b, c, d, e]"
      by auto
    have "ModelPredict [a, b, c, d, e] \<notin> set rest"
      using rest assms
      by (auto simp: predict_try_def bind_eff_def lift_def model_predict_def
          model_predict_proba_def Let_def split: sum.splits prod.splits)
    with that either show ?thesis by blast
  qed
  with rest show ?thesis by blast
qed

text \<open>
  C5, as the code has it. With a model loaded and a JSON object as the body of a
  direct request: when one of the five feature fields is missing, the answer has
  status 500, its error is \<^verbatim>\<open>str\<close> of the \<^verbatim>\<open>KeyError\<close> for the first missing field in
  the order the handler reads them, and the classifier is not called; when all five
  are there, the classifier is called on exactly these five values, in that order.
\<close>

theorem predict_direct_fields:
  assumes "http_method req \<noteq> OPTIONS" and "get_json req = Inr (JObj kvs)"
  shows
    "((\<exists>k \<in> set feature_keys. map_of kvs k = None) \<longrightarrow>
        predict (Some m) req =
          ((ErrorBody (Str (KeyError
              (JStr (hd (filter (\<lambda>k. map_of kvs k = None) feature_keys))))), 500), []))
     \<and> (\<forall>a b c d e.
          map_of kvs ''temperature_2m_max'' = Some a
          \<and> map_of kvs ''temperature_2m_min'' = Some b
          \<and> map_of kvs ''wind_speed_10m_max'' = Some c
          \<and> map_of kvs ''wind_gusts_10m_max'' = Some d
          \<and> map_of kvs ''precipitation_sum'' = Some e \<longrightarrow>
          (\<exists>rest. snd (predict (Some m) req) = ModelPredict [a, b, c, d, e] # rest
             \<and> set rest \<subseteq> {ModelPredictProba [a, b, c, d, e]}))"
proof (intro conjI allI impI)
  assume "\<exists>k \<in> set feature_keys. map_of kvs k = None"
  from predict_try_missing [OF assms(2) this, of m] assms(1)
  show "predict (Some m) req =
          ((ErrorBody (Str (KeyError
              (JStr (hd (filter (\<lambda>k. map_of kvs k = None) feature_keys))))), 500), [])"
    by (simp add: predict_def)
next
  fix a b c d e
  assume present: "map_of kvs ''temperature_2m_max'' = Some a
          \<and> map_of kvs ''temperature_2m_min'' = Some b
          \<and> map_of kvs ''wind_speed_10m_max'' = Some c
          \<and> map_of kvs ''wind_gusts_10m_max'' = Some d
          \<and> map_of kvs ''precipitation_sum'' = Some e"
  have "snd (predict (Some m) req) = fst (predict_try m req)"
    using assms(1) by (simp add: predict_def split: prod.splits sum.splits)
  with predict_try_present [OF assms(2), of a b c d e m] present
  show "\<exists>rest. snd (predict (Some m) req) = ModelPredict [a, b, c, d, e] # rest
             \<and> set rest \<subseteq> {ModelPredictProba [a, b, c, d, e]}"
    by simp
qed

theorem predict_direct_fields_witness:
  "predict (Some example_model) (post (JObj [(''temperature_2m_max'', JInt 35),
       (''wind_speed_10m_max'', JInt 10)])) =
     ((ErrorBody (Str (KeyError (JStr ''temperature_2m_min''))), 500), [])
   \<and> hd (snd (predict (Some example_model) (post example_features))) =
       ModelPredict [JInt 35, JInt 24, JInt 10, JInt 15, JInt 0]"
proof
  let ?kvs = "[(''temperature_2m_max'', JInt 35), (''wind_speed_10m_max'', JInt 10)]"
  let ?req = "post (JObj ?kvs)"
  have meth: "http_method ?req \<noteq> OPTIONS" by (simp add: post_def)
  have body: "get_json ?req = Inr (JObj ?kvs)" by (simp add: post_def)
  have missing: "\<exists>k \<in> set feature_keys. map_of ?kvs k = None"
    by (simp add: feature_keys_def)
  have first: "hd (filter (\<lambda>k. map_of ?kvs k = None) feature_keys) = ''temperature_2m_min''"
    by (simp add: feature_keys_def)
  from predict_direct_fields [OF meth body, of example_model, THEN conjunct1, rule_format,
      OF missing]
  show "predict (Some example_model) ?req =
     ((ErrorBody (Str (KeyError (JStr ''temperature_2m_min''))), 500), [])"
    by (simp only: first)
next
  let ?kvs = "[(''temperature_2m_max'', JInt 35), (''temperature_2m_min'', JInt 24),
           (''wind_speed_10m_max'', JInt 10), (''wind_gusts_10m_max'', JInt 15),
           (''precipitation_sum'', JInt 0)]"
  let ?req = "post example_features"
  have meth: "http_method ?req \<noteq> OPTIONS" by (simp add: post_def)
  have body: "get_json ?req = Inr (JObj ?kvs)" by (simp add: post_def example_features_def)
  have present: "map_of ?kvs ''temperature_2m_max'' = Some (JInt 35)
      \<and> map_of ?kvs ''temperature_2m_min'' = Some (JInt 24)
      \<and> map_of ?kvs ''wind_speed_10m_max'' = Some (JInt 10)
      \<and> map_of ?kvs ''wind_gusts_10m_max'' = Some (JInt 15)
      \<and> map_of ?kvs ''precipitation_sum'' = Some (JInt 0)"
    by simp
  from predict_direct_fields [OF meth body, of example_model, THEN conjunct2, rule_format,
      OF present]
  obtain rest where "snd (predict (Some example_model) ?req) =
      ModelPredict [JInt 35, JInt 24, JInt 10, JInt 15, JInt 0] # rest"
    by blast
  then show "hd (snd (predict (Some example_model) ?req)) =
       ModelPredict [JInt 35, JInt 24, JInt 10, JInt 15, JInt 0]"
    by simp
qed

text \<open>
  A direct request with four fields missing is answered with status 500, not with a
  status between 400 and 499, and the error names one field only.
\<close>

theorem predict_direct_fields_counterexample:
  "predict (Some example_model) (post (JObj [(''temperature_2m_max'', JInt 35)])) =
     ((ErrorBody (Str (KeyError (JStr ''temperature_2m_min''))), 500), [])
   \<and> snd (fst (predict (Some example_model) (post (JObj [(''temperature_2m_max'', JInt 35)]))))
       \<notin> {400 ..< 500}"
  by (simp add: run_defs)

section \<open>Ingesting a reading\<close>

text \<open>
  C6, as the code has it. For a request to the ingest endpoint that is not a
  preflight: when the body is a JSON object with no \<^verbatim>\<open>temperature\<close>, or with a null
  one, the answer is the client error 400 and the sensor state is unchanged; when the
  body is a JSON object with a \<^verbatim>\<open>temperature\<close> that \<^verbatim>\<open>float\<close> accepts, the state
  becomes the \<^verbatim>\<open>float\<close> of it, the clock's time and connected, whatever it was before; every
  answer other than 200 leaves the state unchanged, and a body that is not a JSON
  object or a temperature that \<^verbatim>\<open>float\<close> refuses is answered with status 500.
\<close>

theorem receive_sensor_data_cases:
  assumes "http_method req \<noteq> OPTIONS"
  shows
    "(\<forall>kvs. get_json req = Inr (JObj kvs)
        \<and> (map_of kvs ''temperature'' = None \<or> map_of kvs ''temperature'' = Some JNull) \<longrightarrow>
        receive_sensor_data sf now s req =
          ((ErrorBody (Text ''No temperature data''), 400), s))
     \<and> (\<forall>kvs v t. get_json req = Inr (JObj kvs) \<and> map_of kvs ''temperature'' = Some v
        \<and> py_float sf v = Inr t \<longrightarrow>
        receive_sensor_data sf now s req =
          ((IngestBody v now, 200),
           \<lparr>temperature = Some t, timestamp = Some now, status = Connected\<rparr>))
     \<and> (snd (fst (receive_sensor_data sf now s req)) \<noteq> 200 \<longrightarrow>
        snd (receive_sensor_data sf now s req) = s)
     \<and> ((\<forall>kvs. get_json req \<noteq> Inr (JObj kvs)) \<longrightarrow>
        snd (fst (receive_sensor_data sf now s req)) = 500)
     \<and> (\<forall>kvs v e. get_json req = Inr (JObj kvs) \<and> map_of kvs ''temperature'' = Some v
        \<and> v \<noteq> JNull \<and> py_float sf v = Inl e \<longrightarrow>
        receive_sensor_data sf now s req = ((ErrorBody (Str e), 500), s))"
proof (intro conjI allI impI)
  fix kvs
  assume "get_json req = Inr (JObj kvs)
        \<and> (map_of kvs ''temperature'' = None \<or> map_of kvs ''temperature'' = Some JNull)"
  with assms show "receive_sensor_data sf now s req =
          ((ErrorBody (Text ''No temperature data''), 400), s)"
    by (auto simp: receive_sensor_data_def)
next
  fix kvs v t
  assume "get_json req = Inr (JObj kvs) \<and> map_of kvs ''temperature'' = Some v
        \<and> py_float sf v = Inr t"
  with assms show "receive_sensor_data sf now s req =
          ((IngestBody v now, 200),
           \<lparr>temperature = Some t, timestamp = Some now, status = Connected\<rparr>)"
    by (cases v) (auto simp: receive_sensor_data_def)
next
  assume "snd (fst (receive_sensor_data sf now s req)) \<noteq> 200"
  then show "snd (receive_sensor_data sf now s req) = s"
    by (auto simp: receive_sensor_data_def split: if_splits sum.splits)
next
  assume "\<forall>kvs. get_json req \<noteq> Inr (JObj kvs)"
  with assms show "snd (fst (receive_sensor_data sf now s req)) = 500"
    by (cases "get_json req"; cases "projr (get_json req)")
      (auto simp: receive_sensor_data_def split: sum.splits)
next
  fix kvs v e
  assume "get_json req = Inr (JObj kvs) \<and> map_of kvs ''temperature'' = Some v
        \<and> v \<noteq> JNull \<and> py_float sf v = Inl e"
  with assms show "receive_sensor_data sf now s req = ((ErrorBody (Str e), 500), s)"
    by (auto simp: receive_sensor_data_def)
qed

theorem receive_sensor_data_cases_witness:
  "receive_sensor_data (\<lambda>s. None) 7 example_stale_sensor
       (post (JObj [(''temperature'', JInt 30)])) =
     ((IngestBody (JInt 30) 7, 200),
      \<lparr>temperature = Some (Finite 30), timestamp = Some 7, status = Connected\<rparr>)
   \<and> receive_sensor_data (\<lambda>s. None) 7 example_stale_sensor (post (JObj [(''humidity'', JInt 60)])) =
     ((ErrorBody (Text ''No temperature data''), 400), example_stale_sensor)
   \<and> receive_sensor_data (\<lambda>s. None) 7 example_stale_sensor
       (post (JObj [(''temperature'', JInt 9007199254740993)])) =
     ((IngestBody (JInt 9007199254740993) 7, 200),
      \<lparr>temperature = Some (Finite 9007199254740992), timestamp = Some 7, status = Connected\<rparr>)"
proof (intro conjI)
  let ?kvs = "[(''temperature'', JInt 30)]"
  let ?req = "post (JObj ?kvs)"
  have meth: "http_method ?req \<noteq> OPTIONS" by (simp add: post_def)
  have given: "get_json ?req = Inr (JObj ?kvs) \<and> map_of ?kvs ''temperature'' = Some (JInt 30)
      \<and> py_float (\<lambda>s. None) (JInt 30) = Inr (Finite 30)"
    by (simp add: post_def float_of_int_small)
  from receive_sensor_data_cases [OF meth, of "\<lambda>s. None" 7 example_stale_sensor,
      THEN conjunct2, THEN conjunct1, rule_format, OF given]
  show "receive_sensor_data (\<lambda>s. None) 7 example_stale_sensor ?req =
     ((IngestBody (JInt 30) 7, 200),
      \<lparr>temperature = Some (Finite 30), timestamp = Some 7, status = Connected\<rparr>)" .
next
  let ?kvs = "[(''humidity'', JInt 60)]"
  let ?req = "post (JObj ?kvs)"
  have meth: "http_method ?req \<noteq> OPTIONS" by (simp add: post_def)
  have absent: "get_json ?req = Inr (JObj ?kvs)
      \<and> (map_of ?kvs ''temperature'' = None \<or> map_of ?kvs ''temperature'' = Some JNull)"
    by (simp add: post_def)
  from receive_sensor_data_cases [OF meth, of "\<lambda>s. None" 7 example_stale_sensor,
      THEN conjunct1, rule_format, OF absent]
  show "receive_sensor_data (\<lambda>s. None) 7 example_stale_sensor ?req =
     ((ErrorBody (Text ''No temperature data''), 400), example_stale_sensor)" .
next
  let ?kvs = "[(''temperature'', JInt 9007199254740993)]"
  let ?req = "post (JObj ?kvs)"
  have meth: "http_method ?req \<noteq> OPTIONS" by (simp add: post_def)
  have given: "get_json ?req = Inr (JObj ?kvs)
      \<and> map_of ?kvs ''temperature'' = Some (JInt 9007199254740993)
      \<and> py_float (\<lambda>s. None) (JInt 9007199254740993) = Inr (Finite 9007199254740992)"
    by (simp add: post_def float_of_int_rounds)
  from receive_sensor_data_cases [OF meth, of "\<lambda>s. None" 7 example_stale_sensor,
      THEN conjunct2, THEN conjunct1, rule_format, OF given]
  show "receive_sensor_data (\<lambda>s. None) 7 example_stale_sensor ?req =
     ((IngestBody (JInt 9007199254740993) 7, 200),
      \<lparr>temperature = Some (Finite 9007199254740992), timestamp = Some 7,
        status = Connected\<rparr>)" .
qed

text \<open>
  A body that is a JSON array has no \<^verbatim>\<open>temperature\<close> field and is answered with
  status 500; a body whose \<^verbatim>\<open>temperature\<close> is a list, or the number \<open>10 ^ 400\<close> on
  which \<^verbatim>\<open>float\<close> raises \<^verbatim>\<open>OverflowError\<close>, does supply the field, and the stale
  reading stays as it was, disconnected.
\<close>

theorem receive_sensor_data_counterexample:
  "receive_sensor_data (\<lambda>s. None) 7 example_stale_sensor (post (JArr [])) =
     ((ErrorBody (Str AttributeError), 500), example_stale_sensor)
   \<and> receive_sensor_data (\<lambda>s. None) 7 example_stale_sensor
       (post (JObj [(''temperature'', JArr [JInt 21])])) =
     ((ErrorBody (Str TypeError), 500), example_stale_sensor)
   \<and> receive_sensor_data (\<lambda>s. None) 7 example_stale_sensor
       (post (JObj [(''temperature'', JInt (10 ^ 400))])) =
     ((ErrorBody (Str OverflowError), 500), example_stale_sensor)
   \<and> status example_stale_sensor = Disconnected
   \<and> temperature example_stale_sensor = Some (Finite 42)"
proof -
  have refused: "py_float (\<lambda>s. None) (JInt (10 ^ 400)) = Inl OverflowError"
    by (simp only: py_float.simps float_of_int_overflow option.case)
  have "receive_sensor_data (\<lambda>s. None) 7 example_stale_sensor
       (post (JObj [(''temperature'', JInt (10 ^ 400))])) =
     ((ErrorBody (Str OverflowError), 500), example_stale_sensor)"
    using receive_sensor_data_refused [OF refused] by simp
  then show ?thesis
    by (simp add: receive_sensor_data_def post_def example_stale_sensor_def)
qed

end
